theory Spec2Isabelle
  imports Main "HOL-Library.Sublist"
begin

section \<open>Values, thrown errors and results\<close>

text \<open>
  The raw input of an action is an untyped JavaScript value (\<open>input: unknown\<close>).
  Numbers are restricted to integers: element indices and tab ids are the only
  numbers the handlers read. An object is the list of its own properties in
  insertion order.
\<close>

datatype jsval =
    JUndefined
  | JNull
  | JBool bool
  | JNumber int
  | JString string
  | JArray "jsval list"
  | JObject "(string \<times> jsval) list"

text \<open>JavaScript truthiness, as \<open>input && ...\<close> and \<open>if (tabId)\<close> test it.\<close>

fun truthy :: "jsval \<Rightarrow> bool" where
  "truthy JUndefined = False"
| "truthy JNull = False"
| "truthy (JBool b) = b"
| "truthy (JNumber n) = (n \<noteq> 0)"
| "truthy (JString s) = (s \<noteq> [])"
| "truthy (JArray xs) = True"
| "truthy (JObject fs) = True"

fun typeof :: "jsval \<Rightarrow> string" where
  "typeof JUndefined = ''undefined''"
| "typeof JNull = ''object''"
| "typeof (JBool b) = ''boolean''"
| "typeof (JNumber n) = ''number''"
| "typeof (JString s) = ''string''"
| "typeof (JArray xs) = ''object''"
| "typeof (JObject fs) = ''object''"

text \<open>
  \<open>'index' in input\<close> for a value that passed the two tests before it. Neither
  \<open>Object.prototype\<close> nor \<open>Array.prototype\<close> has a property \<open>index\<close>, so
  the operator finds the key exactly when it is an own property; an array's own keys
  are its positions and \<open>length\<close>.
\<close>

fun index_in :: "jsval \<Rightarrow> bool" where
  "index_in (JObject fs) = (map_of fs ''index'' \<noteq> None)"
| "index_in _ = False"

text \<open>Reading \<open>input.index\<close>; a later duplicate key cannot occur in an object.\<close>

fun get_index :: "jsval \<Rightarrow> jsval" where
  "get_index (JObject fs) = (case map_of fs ''index'' of Some v \<Rightarrow> v | None \<Rightarrow> JUndefined)"
| "get_index _ = JUndefined"

text \<open>
  What a \<open>throw\<close> carries: an \<open>Error\<close> with its message, the dedicated
  \<open>InvalidInputError\<close> subclass, or any other thrown value, given by what
  \<open>String(error)\<close> renders.
\<close>

datatype thrown =
    Error string
  | InvalidInputError string
  | Thrown string

text \<open>\<open>error instanceof Error ? error.message : String(error)\<close>\<close>

fun error_text :: "thrown \<Rightarrow> string" where
  "error_text (Error m) = m"
| "error_text (InvalidInputError m) = m"
| "error_text (Thrown s) = s"

text \<open>
  Modelled from the spec: the class \<open>ActionResult\<close> of \<open>agent/types\<close>, whose
  attributes are \<open>isDone\<close> (defaults to false), \<open>extractedContent\<close>, \<open>error\<close>
  and \<open>includeInMemory\<close>; an attribute the constructor is not given is unset.
\<close>

record ActionResult =
  isDone :: bool
  extractedContent :: "string option"
  error :: "string option"
  includeInMemory :: bool

definition newActionResult :: ActionResult where
  "newActionResult =
     \<lparr>isDone = False, extractedContent = None, error = None, includeInMemory = False\<rparr>"

section \<open>Parameter schemas\<close>

text \<open>
  The fragment of the validator library the builder uses: a schema is a description
  and a definition; \<open>z.object\<close>, \<open>nullable\<close>, \<open>describe\<close>, \<open>extend\<close> and
  \<open>partial\<close> build schemas from schemas. A shape lists its fields in insertion order.
\<close>

datatype zod = Zod (zdescription: "string option") (zdef: zod_def)
and zod_def =
    ZodString
  | ZodNumber
  | ZodBoolean
  | ZodArray zod
  | ZodObject "(string \<times> zod) list"
  | ZodOptional zod
  | ZodNullable zod

definition z_object :: "(string \<times> zod) list \<Rightarrow> zod" where
  "z_object sh = Zod None (ZodObject sh)"

text \<open>\<open>nullable()\<close> and \<open>optional()\<close> wrap the schema and keep its description.\<close>

definition nullable :: "zod \<Rightarrow> zod" where
  "nullable s = Zod (zdescription s) (ZodNullable s)"

definition optional :: "zod \<Rightarrow> zod" where
  "optional s = Zod (zdescription s) (ZodOptional s)"

definition describe :: "zod \<Rightarrow> string \<Rightarrow> zod" where
  "describe s d = Zod (Some d) (zdef s)"

text \<open>
  Assigning a key of a shape: an existing key keeps its place and takes the new
  value, a new key goes last.
\<close>

fun assign :: "string \<Rightarrow> zod \<Rightarrow> (string \<times> zod) list \<Rightarrow> (string \<times> zod) list" where
  "assign k v [] = [(k, v)]"
| "assign k v ((k', v') # sh) = (if k = k' then (k, v) # sh else (k', v') # assign k v sh)"

text \<open>
  \<open>extend\<close> (here \<open>extend_schema\<close>) and \<open>partial\<close> are methods of object schemas only; the builder calls
  them on a value typed as one.
\<close>

fun extend_schema :: "zod \<Rightarrow> string \<Rightarrow> zod \<Rightarrow> zod" where
  "extend_schema (Zod d (ZodObject sh)) k v = Zod d (ZodObject (assign k v sh))"
| "extend_schema s k v = s"

fun partial :: "zod \<Rightarrow> zod" where
  "partial (Zod d (ZodObject sh)) = Zod d (ZodObject (map (\<lambda>(k, f). (k, optional f)) sh))"
| "partial s = s"

text \<open>The fields of an object schema (\<open>shape\<close>), none for any other schema.\<close>

fun shape :: "zod \<Rightarrow> (string \<times> zod) list" where
  "shape (Zod d (ZodObject sh)) = sh"
| "shape s = []"

fun instanceof_ZodObject :: "zod \<Rightarrow> bool" where
  "instanceof_ZodObject (Zod d (ZodObject sh)) = True"
| "instanceof_ZodObject s = False"

text \<open>
  \<open>isOptional()\<close> and \<open>isNullable()\<close>: whether the schema accepts \<open>undefined\<close>,
  respectively \<open>null\<close>.
\<close>

fun isOptional :: "zod \<Rightarrow> bool" where
  "isOptional (Zod d (ZodOptional s)) = True"
| "isOptional (Zod d (ZodNullable s)) = isOptional s"
| "isOptional s = False"

fun isNullable :: "zod \<Rightarrow> bool" where
  "isNullable (Zod d (ZodNullable s)) = True"
| "isNullable (Zod d (ZodOptional s)) = isNullable s"
| "isNullable s = False"

record ActionSchema =
  name :: string
  description :: string
  schema :: zod

section \<open>Action\<close>

text \<open>
  A handler takes the parsed input and a state \<open>'s\<close> that stands for everything it
  can touch, and returns with a result or throws. \<open>safeParse\<close> belongs to the
  validator library: it is a parameter here, giving the parsed data or the message of
  the validation error.
\<close>

type_synonym ('s, 'a) io = "'s \<Rightarrow> (thrown + 'a) \<times> 's"

type_synonym safeParse = "zod \<Rightarrow> jsval \<Rightarrow> string + jsval"

record 's Action =
  handler :: "jsval \<Rightarrow> ('s, ActionResult) io"
  actionSchema :: ActionSchema
  hasIndex :: bool

definition isEmptySchema :: "zod \<Rightarrow> bool" where
  "isEmptySchema s = (instanceof_ZodObject s \<and> length (map fst (shape s)) = 0)"

definition call :: "safeParse \<Rightarrow> 's Action \<Rightarrow> jsval \<Rightarrow> ('s, ActionResult) io" where
  "call safeParse a input =
     (if isEmptySchema (schema (actionSchema a)) then handler a (JObject [])
      else (case safeParse (schema (actionSchema a)) input of
              Inl errorMessage \<Rightarrow> (\<lambda>s. (Inl (InvalidInputError errorMessage), s))
            | Inr data \<Rightarrow> handler a data))"

definition action_name :: "'s Action \<Rightarrow> string" where
  "action_name a = name (actionSchema a)"

definition getIndexArg :: "'s Action \<Rightarrow> jsval \<Rightarrow> jsval" where
  "getIndexArg a input =
     (if \<not> hasIndex a then JNull
      else if truthy input \<and> typeof input = ''object'' \<and> index_in input then get_index input
      else JNull)"

definition buildDynamicActionSchema :: "'s Action list \<Rightarrow> zod" where
  "buildDynamicActionSchema actions =
     partial
       (foldl
          (\<lambda>sch action.
             extend_schema sch (action_name action)
               (describe (nullable (schema (actionSchema action)))
                  (description (actionSchema action))))
          (z_object []) actions)"

section \<open>Strings\<close>

text \<open>How a template literal renders an integer: decimal digits, a minus sign first.\<close>

fun show_nat :: "nat \<Rightarrow> string" where
  "show_nat n =
     (if n < 10 then [char_of (48 + n)] else show_nat (n div 10) @ [char_of (48 + n mod 10)])"

declare show_nat.simps [simp del]

definition show_int :: "int \<Rightarrow> string" where
  "show_int i = (if i < 0 then ''-'' @ show_nat (nat (- i)) else show_nat (nat i))"

definition dquote :: string where
  "dquote = [CHR 0x22]"

definition squote :: string where
  "squote = [CHR 0x27]"

definition newline :: string where
  "newline = [CHR 0x0A]"

text \<open>The page emoji U+1F4C4 that opens the extraction message, as its UTF-8 bytes.\<close>

definition page_emoji :: string where
  "page_emoji = [CHR 0xF0, CHR 0x9F, CHR 0x93, CHR 0x84]"

text \<open>\<open>Array.prototype.join\<close> on strings.\<close>

fun join :: "string \<Rightarrow> string list \<Rightarrow> string" where
  "join sep [] = []"
| "join sep [x] = x"
| "join sep (x # y # ys) = x @ sep @ join sep (y # ys)"

text \<open>
  \<open>JSON.stringify\<close> of a string: the two-character escapes, \<open>\u00XX\<close> for the
  other control characters, every other character as it is, between double quotes.
\<close>

definition hex_digit :: "nat \<Rightarrow> char" where
  "hex_digit n = (if n < 10 then char_of (48 + n) else char_of (87 + n))"

definition json_escape :: "char \<Rightarrow> string" where
  "json_escape c =
     (if c = CHR 0x08 then [CHR 0x5C, CHR ''b'']
      else if c = CHR 0x09 then [CHR 0x5C, CHR ''t'']
      else if c = CHR 0x0A then [CHR 0x5C, CHR ''n'']
      else if c = CHR 0x0C then [CHR 0x5C, CHR ''f'']
      else if c = CHR 0x0D then [CHR 0x5C, CHR ''r'']
      else if c = CHR 0x22 then [CHR 0x5C, CHR 0x22]
      else if c = CHR 0x5C then [CHR 0x5C, CHR 0x5C]
      else if (of_char c :: nat) < 32
        then [CHR 0x5C, CHR ''u'', CHR ''0'', CHR ''0'',
              hex_digit (of_char c div 16), hex_digit (of_char c mod 16)]
      else [c])"

definition JSON_stringify :: "string \<Rightarrow> string" where
  "JSON_stringify s = dquote @ concat (map json_escape s) @ dquote"

text \<open>\<open>toLowerCase\<close> on the letters A to Z, which decide the comparison with \<open>select\<close>.\<close>

definition lower_char :: "char \<Rightarrow> char" where
  "lower_char c =
     (if 65 \<le> (of_char c :: nat) \<and> (of_char c :: nat) \<le> 90 then char_of ((of_char c :: nat) + 32)
      else c)"

definition toLowerCase :: "string \<Rightarrow> string" where
  "toLowerCase s = map lower_char s"

section \<open>Context, collaborators and effects\<close>

text \<open>
  A field of a parsed input that may be absent, \<open>null\<close> or present.
\<close>

datatype 'a nullish = Absent | Null | Present 'a

text \<open>\<open>input.desc || fallback\<close>: the description when it is a non-empty string.\<close>

fun or_else :: "string nullish \<Rightarrow> string \<Rightarrow> string" where
  "or_else (Present s) fallback = (if s \<noteq> [] then s else fallback)"
| "or_else _ fallback = fallback"

text \<open>\<open>if (tabId)\<close>: a tab id passes when it is a number other than 0.\<close>

fun truthy_number :: "int nullish \<Rightarrow> int option" where
  "truthy_number (Present n) = (if n \<noteq> 0 then Some n else None)"
| "truthy_number _ = None"

text \<open>How a template literal renders \<open>input.amount\<close> once it is not \<open>undefined\<close>.\<close>

fun show_amount :: "int nullish \<Rightarrow> string" where
  "show_amount (Present n) = show_int n"
| "show_amount Null = ''null''"
| "show_amount Absent = ''undefined''"

datatype Actors = NAVIGATOR

datatype ExecutionState = ACT_START | ACT_OK | ACT_FAIL

type_synonym Event = "Actors \<times> ExecutionState \<times> string"

record Page =
  tabId :: int

record DOMElementNode =
  tagName :: "string option"
  xpath :: "string option"

type_synonym BrowserState = "int \<Rightarrow> DOMElementNode option"

text \<open>
  Every call a handler makes to the browser context, a page, an element or the
  extraction model, with its arguments; \<open>switchTab\<close> is called with and without its
  second argument.
\<close>

datatype outbound =
    NavigateTo string bool
  | GetCurrentPage bool
  | GetAllTabIds
  | SwitchTab int "bool option"
  | OpenTab string bool
  | CloseTab int
  | GoBack Page
  | GetState Page
  | IsFileUploader Page DOMElementNode
  | ClickElementNode Page bool DOMElementNode
  | GetAllTextTillNextClickableElement DOMElementNode int
  | InputTextElementNode Page bool DOMElementNode string
  | GetReadabilityContent Page
  | Invoke string
  | ScrollDown Page "int nullish"
  | ScrollUp Page "int nullish"
  | SendKeys Page string
  | ScrollToText Page string
  | GetDropdownOptions Page int
  | SelectDropdownOption Page int string

text \<open>
  The collaborators are parameters: each is a function of the outside world \<open>'w\<close>
  that returns or throws and leaves a new world. \<open>getState\<close> may give no state
  (\<open>state?.selectorMap\<close>), \<open>getDropdownOptions\<close> no list; the set of tab ids is
  the list of its members in insertion order.
\<close>

type_synonym ('w, 'a) ext = "'w \<Rightarrow> (thrown + 'a) \<times> 'w"

record 'w AgentContext =
  useVision :: bool
  navigateTo :: "string \<Rightarrow> bool \<Rightarrow> ('w, unit) ext"
  getCurrentPage :: "bool \<Rightarrow> ('w, Page) ext"
  getAllTabIds :: "('w, int list) ext"
  switchTab :: "int \<Rightarrow> bool option \<Rightarrow> ('w, unit) ext"
  openTab :: "string \<Rightarrow> bool \<Rightarrow> ('w, Page) ext"
  closeTab :: "int \<Rightarrow> ('w, unit) ext"
  goBack :: "Page \<Rightarrow> ('w, unit) ext"
  getState :: "Page \<Rightarrow> ('w, BrowserState option) ext"
  isFileUploader :: "Page \<Rightarrow> DOMElementNode \<Rightarrow> ('w, bool) ext"
  clickElementNode :: "Page \<Rightarrow> bool \<Rightarrow> DOMElementNode \<Rightarrow> ('w, unit) ext"
  getAllTextTillNextClickableElement :: "DOMElementNode \<Rightarrow> int \<Rightarrow> ('w, string) ext"
  inputTextElementNode :: "Page \<Rightarrow> bool \<Rightarrow> DOMElementNode \<Rightarrow> string \<Rightarrow> ('w, unit) ext"
  getReadabilityContent :: "Page \<Rightarrow> ('w, string) ext"
  invoke :: "string \<Rightarrow> ('w, string) ext"
  scrollDown :: "Page \<Rightarrow> int nullish \<Rightarrow> ('w, unit) ext"
  scrollUp :: "Page \<Rightarrow> int nullish \<Rightarrow> ('w, unit) ext"
  sendKeys :: "Page \<Rightarrow> string \<Rightarrow> ('w, unit) ext"
  scrollToText :: "Page \<Rightarrow> string \<Rightarrow> ('w, bool) ext"
  getDropdownOptions :: "Page \<Rightarrow> int \<Rightarrow> ('w, (int \<times> string) list option) ext"
  selectDropdownOption :: "Page \<Rightarrow> int \<Rightarrow> string \<Rightarrow> ('w, string) ext"

text \<open>
  What a handler changes: the events it has emitted, the calls it has made, both in
  order, and the outside world.
\<close>

record 'w state =
  events :: "Event list"
  calls :: "outbound list"
  world :: 'w

definition ret :: "'a \<Rightarrow> ('s, 'a) io" where
  "ret x = (\<lambda>s. (Inr x, s))"

definition throw :: "thrown \<Rightarrow> ('s, 'a) io" where
  "throw e = (\<lambda>s. (Inl e, s))"

text \<open>Sequencing (\<open>await\<close> and \<open>;\<close>): a throw ends the rest.\<close>

definition bindP :: "('s, 'a) io \<Rightarrow> ('a \<Rightarrow> ('s, 'b) io) \<Rightarrow> ('s, 'b) io" where
  "bindP m f = (\<lambda>s. case m s of (Inl e, s') \<Rightarrow> (Inl e, s') | (Inr x, s') \<Rightarrow> f x s')"

definition try_catch :: "('s, 'a) io \<Rightarrow> (thrown \<Rightarrow> ('s, 'a) io) \<Rightarrow> ('s, 'a) io" where
  "try_catch m h = (\<lambda>s. case m s of (Inl e, s') \<Rightarrow> h e s' | (Inr x, s') \<Rightarrow> (Inr x, s'))"

text \<open>
  Modelled from the spec: \<open>emitEvent\<close> of the agent context, a fire-and-forget event
  sink; the event joins the stream and the call returns.
\<close>

definition emitEvent :: "Actors \<Rightarrow> ExecutionState \<Rightarrow> string \<Rightarrow> ('w state, unit) io" where
  "emitEvent actor phase msg = (\<lambda>s. (Inr (), s\<lparr>events := events s @ [(actor, phase, msg)]\<rparr>))"

definition perform :: "outbound \<Rightarrow> ('w, 'a) ext \<Rightarrow> ('w state, 'a) io" where
  "perform c f =
     (\<lambda>s. case f (world s) of (r, w') \<Rightarrow> (r, s\<lparr>calls := calls s @ [c], world := w'\<rparr>))"

text \<open>\<open>state?.selectorMap.get(index)\<close>\<close>

fun selectorMap_get :: "BrowserState option \<Rightarrow> int \<Rightarrow> DOMElementNode option" where
  "selectorMap_get None i = None"
| "selectorMap_get (Some selectorMap) i = selectorMap i"

section \<open>The handlers of buildDefaultActions\<close>

text \<open>
  Each handler takes the context and the fields of its parsed input that it reads.
  The schema catalog is not part of the sources read here: the fields have the types
  their uses give them. Calls to the logger are left out: they change neither the
  event stream, nor the browser, nor the result.
\<close>

definition done_handler :: "'w AgentContext \<Rightarrow> string \<Rightarrow> string \<Rightarrow> ('w state, ActionResult) io" where
  "done_handler ctx doneActionSchema_name text =
     bindP (emitEvent NAVIGATOR ACT_START doneActionSchema_name) (\<lambda>_.
     bindP (emitEvent NAVIGATOR ACT_OK text) (\<lambda>_.
     ret (newActionResult\<lparr>isDone := True, extractedContent := Some text\<rparr>)))"

definition searchGoogle_handler :: "'w AgentContext \<Rightarrow> string \<Rightarrow> ('w state, ActionResult) io" where
  "searchGoogle_handler ctx query =
     (let msg = ''Searching for '' @ dquote @ query @ dquote @ '' in Google'' in
      bindP (emitEvent NAVIGATOR ACT_START msg) (\<lambda>_.
      bindP (perform (NavigateTo (''https://www.google.com/search?q='' @ query) True)
               (navigateTo ctx (''https://www.google.com/search?q='' @ query) True)) (\<lambda>_.
      let msg2 = ''Searched for '' @ dquote @ query @ dquote @ '' in Google (background)'' in
      bindP (emitEvent NAVIGATOR ACT_OK msg2) (\<lambda>_.
      ret (newActionResult\<lparr>extractedContent := Some msg2, includeInMemory := True\<rparr>)))))"

definition goToUrl_handler :: "'w AgentContext \<Rightarrow> string \<Rightarrow> ('w state, ActionResult) io" where
  "goToUrl_handler ctx url =
     (let msg = ''Navigating to '' @ url in
      bindP (emitEvent NAVIGATOR ACT_START msg) (\<lambda>_.
      bindP (perform (NavigateTo url True) (navigateTo ctx url True)) (\<lambda>_.
      let msg2 = ''Navigated to '' @ url @ '' (in background)'' in
      bindP (emitEvent NAVIGATOR ACT_OK msg2) (\<lambda>_.
      ret (newActionResult\<lparr>extractedContent := Some msg2, includeInMemory := True\<rparr>)))))"

definition goBack_handler :: "'w AgentContext \<Rightarrow> ('w state, ActionResult) io" where
  "goBack_handler ctx =
     (let msg = ''Navigating back'' in
      bindP (emitEvent NAVIGATOR ACT_START msg) (\<lambda>_.
      bindP (perform (GetCurrentPage True) (getCurrentPage ctx True)) (\<lambda>page.
      bindP (perform (GoBack page) (goBack ctx page)) (\<lambda>_.
      let msg2 = ''Navigated back (background)'' in
      bindP (emitEvent NAVIGATOR ACT_OK msg2) (\<lambda>_.
      ret (newActionResult\<lparr>extractedContent := Some msg2, includeInMemory := True\<rparr>))))))"

definition element_missing :: "int \<Rightarrow> string" where
  "element_missing index =
     ''Element with index '' @ show_int index @ '' does not exist - retry or use alternative actions''"

definition file_upload_msg :: "int \<Rightarrow> string" where
  "file_upload_msg index =
     ''Index '' @ show_int index @
     '' - has an element which opens file upload dialog. To upload files please use a specific function to upload files''"

text \<open>
  The body of the \<open>try\<close> block of \<open>click_element\<close>: the click, and the switch to
  a tab that the click opened.
\<close>

definition click_and_follow ::
  "'w AgentContext \<Rightarrow> Page \<Rightarrow> DOMElementNode \<Rightarrow> int \<Rightarrow> ('w state, ActionResult) io" where
  "click_and_follow ctx page elementNode index =
     bindP (perform GetAllTabIds (getAllTabIds ctx)) (\<lambda>initialTabIds.
     bindP (perform (ClickElementNode page (useVision ctx) elementNode)
              (clickElementNode ctx page (useVision ctx) elementNode)) (\<lambda>_.
     bindP (perform (GetAllTextTillNextClickableElement elementNode 2)
              (getAllTextTillNextClickableElement ctx elementNode 2)) (\<lambda>allText.
     let msg = ''Clicked button with index '' @ show_int index @ '': '' @ allText in
     bindP (perform GetAllTabIds (getAllTabIds ctx)) (\<lambda>currentTabIds.
     bindP (if length currentTabIds > length initialTabIds
            then (let newTabMsg = ''New tab opened - switching to it'';
                      msg' = msg @ '' - '' @ newTabMsg in
                  case find (\<lambda>id. id \<notin> set initialTabIds) currentTabIds of
                    None \<Rightarrow> ret msg'
                  | Some newTabId \<Rightarrow>
                      if newTabId \<noteq> 0
                      then bindP (perform (SwitchTab newTabId None) (switchTab ctx newTabId None))
                             (\<lambda>_. ret msg')
                      else ret msg')
            else ret msg) (\<lambda>msg.
     bindP (emitEvent NAVIGATOR ACT_OK msg) (\<lambda>_.
     ret (newActionResult\<lparr>extractedContent := Some msg, includeInMemory := True\<rparr>)))))))"

definition clickElement_handler ::
  "'w AgentContext \<Rightarrow> int \<Rightarrow> string nullish \<Rightarrow> ('w state, ActionResult) io" where
  "clickElement_handler ctx index desc =
     (let todo = or_else desc (''Click element with index '' @ show_int index) in
      bindP (emitEvent NAVIGATOR ACT_START todo) (\<lambda>_.
      bindP (perform (GetCurrentPage True) (getCurrentPage ctx True)) (\<lambda>page.
      bindP (perform (GetState page) (getState ctx page)) (\<lambda>state.
      case selectorMap_get state index of
        None \<Rightarrow> throw (Error (element_missing index))
      | Some elementNode \<Rightarrow>
          bindP (perform (IsFileUploader page elementNode) (isFileUploader ctx page elementNode))
            (\<lambda>uploader.
          if uploader
          then (let msg = file_upload_msg index in
                ret (newActionResult\<lparr>extractedContent := Some msg, includeInMemory := True\<rparr>))
          else try_catch (click_and_follow ctx page elementNode index)
                 (\<lambda>error.
                    let msg = ''Element no longer available with index '' @ show_int index @
                              '' - most likely the page changed'' in
                    bindP (emitEvent NAVIGATOR ACT_FAIL msg) (\<lambda>_.
                    ret (newActionResult\<lparr>error := Some (error_text error)\<rparr>))))))))"

definition inputText_handler ::
  "'w AgentContext \<Rightarrow> int \<Rightarrow> string \<Rightarrow> string nullish \<Rightarrow> ('w state, ActionResult) io" where
  "inputText_handler ctx index text desc =
     (let todo = or_else desc (''Input text into index '' @ show_int index) in
      bindP (emitEvent NAVIGATOR ACT_START todo) (\<lambda>_.
      bindP (perform (GetCurrentPage True) (getCurrentPage ctx True)) (\<lambda>page.
      bindP (perform (GetState page) (getState ctx page)) (\<lambda>state.
      case selectorMap_get state index of
        None \<Rightarrow> throw (Error (element_missing index))
      | Some elementNode \<Rightarrow>
          bindP (perform (InputTextElementNode page (useVision ctx) elementNode text)
                   (inputTextElementNode ctx page (useVision ctx) elementNode text)) (\<lambda>_.
          let msg = ''Input '' @ text @ '' into index '' @ show_int index in
          bindP (emitEvent NAVIGATOR ACT_OK msg) (\<lambda>_.
          ret (newActionResult\<lparr>extractedContent := Some msg, includeInMemory := True\<rparr>)))))))"

definition switchTab_handler :: "'w AgentContext \<Rightarrow> int \<Rightarrow> ('w state, ActionResult) io" where
  "switchTab_handler ctx tab_id =
     bindP (emitEvent NAVIGATOR ACT_START (''Switching to tab '' @ show_int tab_id)) (\<lambda>_.
     bindP (perform (SwitchTab tab_id (Some True)) (switchTab ctx tab_id (Some True))) (\<lambda>_.
     let msg = ''Switched to tab '' @ show_int tab_id @ '' (in background)'' in
     bindP (emitEvent NAVIGATOR ACT_OK msg) (\<lambda>_.
     ret (newActionResult\<lparr>extractedContent := Some msg, includeInMemory := True\<rparr>))))"

definition openTab_handler :: "'w AgentContext \<Rightarrow> string \<Rightarrow> ('w state, ActionResult) io" where
  "openTab_handler ctx url =
     bindP (emitEvent NAVIGATOR ACT_START (''Opening '' @ url @ '' in new tab (background)'')) (\<lambda>_.
     bindP (perform (OpenTab url True) (openTab ctx url True)) (\<lambda>page.
     let msg = ''Opened '' @ url @ '' in new tab (ID: '' @ show_int (tabId page) @
               '', background mode)'' in
     bindP (emitEvent NAVIGATOR ACT_OK msg) (\<lambda>_.
     ret (newActionResult\<lparr>extractedContent := Some msg, includeInMemory := True\<rparr>))))"

definition closeTab_handler :: "'w AgentContext \<Rightarrow> int nullish \<Rightarrow> ('w state, ActionResult) io" where
  "closeTab_handler ctx tab_id =
     (case truthy_number tab_id of
        Some tabId' \<Rightarrow>
          bindP (emitEvent NAVIGATOR ACT_START (''Closing tab '' @ show_int tabId')) (\<lambda>_.
          bindP (perform (CloseTab tabId') (closeTab ctx tabId')) (\<lambda>_.
          let msg = ''Closed tab '' @ show_int tabId' in
          bindP (emitEvent NAVIGATOR ACT_OK msg) (\<lambda>_.
          ret (newActionResult\<lparr>extractedContent := Some msg, includeInMemory := True\<rparr>))))
      | None \<Rightarrow>
          bindP (perform (GetCurrentPage True) (getCurrentPage ctx True)) (\<lambda>page.
          let currentTabId = tabId page in
          bindP (emitEvent NAVIGATOR ACT_START (''Closing current tab '' @ show_int currentTabId))
            (\<lambda>_.
          bindP (perform (CloseTab currentTabId) (closeTab ctx currentTabId)) (\<lambda>_.
          let msg = ''Closed current tab '' @ show_int currentTabId in
          bindP (emitEvent NAVIGATOR ACT_OK msg) (\<lambda>_.
          ret (newActionResult\<lparr>extractedContent := Some msg, includeInMemory := True\<rparr>))))))"

definition extraction_prompt :: "string \<Rightarrow> string \<Rightarrow> string" where
  "extraction_prompt goal page =
     ''Your task is to extract the content of the page. You will be given a page and a goal and you should extract all relevant information around this goal from the page. If the goal is vague, summarize the page. Respond in json format. Extraction goal: ''
     @ goal @ '', Page: '' @ page"

definition extraction_failed :: string where
  "extraction_failed =
     ''Failed to extract content from page, you need to extract content from the current state of the page and store it in the memory. Then scroll down if you still need more information.''"

definition extractContent_handler :: "'w AgentContext \<Rightarrow> string \<Rightarrow> ('w state, ActionResult) io" where
  "extractContent_handler ctx goal =
     bindP (perform (GetCurrentPage True) (getCurrentPage ctx True)) (\<lambda>page.
     bindP (perform (GetReadabilityContent page) (getReadabilityContent ctx page)) (\<lambda>content.
     let prompt = extraction_prompt goal content in
     try_catch
       (bindP (perform (Invoke prompt) (invoke ctx prompt)) (\<lambda>output.
        let msg = page_emoji @ ''  Extracted from page'' @ newline @ '': '' @ output @ newline in
        ret (newActionResult\<lparr>extractedContent := Some msg, includeInMemory := True\<rparr>)))
       (\<lambda>error.
          let msg = extraction_failed in
          ret (newActionResult\<lparr>extractedContent := Some msg, includeInMemory := True\<rparr>))))"

definition cacheContent_handler ::
  "'w AgentContext \<Rightarrow> string \<Rightarrow> string \<Rightarrow> ('w state, ActionResult) io" where
  "cacheContent_handler ctx cacheContentActionSchema_name content =
     bindP (emitEvent NAVIGATOR ACT_START cacheContentActionSchema_name) (\<lambda>_.
     let msg = ''Cached findings: '' @ content in
     bindP (emitEvent NAVIGATOR ACT_OK msg) (\<lambda>_.
     ret (newActionResult\<lparr>extractedContent := Some msg, includeInMemory := True\<rparr>)))"

definition scrolled_amount :: "int nullish \<Rightarrow> string" where
  "scrolled_amount amount =
     (if amount \<noteq> Absent then show_amount amount @ '' pixels'' else ''one page'')"

definition scrollDown_handler ::
  "'w AgentContext \<Rightarrow> int nullish \<Rightarrow> string nullish \<Rightarrow> ('w state, ActionResult) io" where
  "scrollDown_handler ctx amount desc =
     (let todo = or_else desc ''Scroll down the page'' in
      bindP (emitEvent NAVIGATOR ACT_START todo) (\<lambda>_.
      bindP (perform (GetCurrentPage True) (getCurrentPage ctx True)) (\<lambda>page.
      bindP (perform (ScrollDown page amount) (scrollDown ctx page amount)) (\<lambda>_.
      let msg = ''Scrolled down the page by '' @ scrolled_amount amount in
      bindP (emitEvent NAVIGATOR ACT_OK msg) (\<lambda>_.
      ret (newActionResult\<lparr>extractedContent := Some msg, includeInMemory := True\<rparr>))))))"

definition scrollUp_handler ::
  "'w AgentContext \<Rightarrow> int nullish \<Rightarrow> string nullish \<Rightarrow> ('w state, ActionResult) io" where
  "scrollUp_handler ctx amount desc =
     (let todo = or_else desc ''Scroll up the page'' in
      bindP (emitEvent NAVIGATOR ACT_START todo) (\<lambda>_.
      bindP (perform (GetCurrentPage True) (getCurrentPage ctx True)) (\<lambda>page.
      bindP (perform (ScrollUp page amount) (scrollUp ctx page amount)) (\<lambda>_.
      let msg = ''Scrolled up the page by '' @ scrolled_amount amount in
      bindP (emitEvent NAVIGATOR ACT_OK msg) (\<lambda>_.
      ret (newActionResult\<lparr>extractedContent := Some msg, includeInMemory := True\<rparr>))))))"

definition sendKeys_handler ::
  "'w AgentContext \<Rightarrow> string \<Rightarrow> string nullish \<Rightarrow> ('w state, ActionResult) io" where
  "sendKeys_handler ctx keys desc =
     (let todo = or_else desc (''Send keys: '' @ keys) in
      bindP (emitEvent NAVIGATOR ACT_START todo) (\<lambda>_.
      bindP (perform (GetCurrentPage True) (getCurrentPage ctx True)) (\<lambda>page.
      bindP (perform (SendKeys page keys) (sendKeys ctx page keys)) (\<lambda>_.
      let msg = ''Sent keys: '' @ keys in
      bindP (emitEvent NAVIGATOR ACT_OK msg) (\<lambda>_.
      ret (newActionResult\<lparr>extractedContent := Some msg, includeInMemory := True\<rparr>))))))"

definition scrollToText_handler ::
  "'w AgentContext \<Rightarrow> string \<Rightarrow> string nullish \<Rightarrow> ('w state, ActionResult) io" where
  "scrollToText_handler ctx text desc =
     (let todo = or_else desc (''Scroll to text: '' @ text) in
      bindP (emitEvent NAVIGATOR ACT_START todo) (\<lambda>_.
      bindP (perform (GetCurrentPage True) (getCurrentPage ctx True)) (\<lambda>page.
      try_catch
        (bindP (perform (ScrollToText page text) (scrollToText ctx page text)) (\<lambda>scrolled.
         let msg = (if scrolled then ''Scrolled to text: '' @ text
                    else ''Text '' @ squote @ text @ squote @ '' not found or not visible on page'') in
         bindP (emitEvent NAVIGATOR ACT_OK msg) (\<lambda>_.
         ret (newActionResult\<lparr>extractedContent := Some msg, includeInMemory := True\<rparr>))))
        (\<lambda>error.
           let msg = ''Failed to scroll to text: '' @ error_text error in
           bindP (emitEvent NAVIGATOR ACT_FAIL msg) (\<lambda>_.
           ret (newActionResult\<lparr>error := Some msg, includeInMemory := True\<rparr>))))))"

definition format_option :: "int \<times> string \<Rightarrow> string" where
  "format_option opt = show_int (fst opt) @ '': text='' @ JSON_stringify (snd opt)"

definition getDropdownOptions_handler :: "'w AgentContext \<Rightarrow> int \<Rightarrow> ('w state, ActionResult) io" where
  "getDropdownOptions_handler ctx index =
     (let todo = ''Getting options from dropdown with index '' @ show_int index in
      bindP (emitEvent NAVIGATOR ACT_START todo) (\<lambda>_.
      bindP (perform (GetCurrentPage True) (getCurrentPage ctx True)) (\<lambda>page.
      bindP (perform (GetState page) (getState ctx page)) (\<lambda>state.
      case selectorMap_get state index of
        None \<Rightarrow>
          (let errorMsg = element_missing index in
           bindP (emitEvent NAVIGATOR ACT_FAIL errorMsg) (\<lambda>_.
           ret (newActionResult\<lparr>error := Some errorMsg, includeInMemory := True\<rparr>)))
      | Some elementNode \<Rightarrow>
          try_catch
            (bindP (perform (GetDropdownOptions page index) (getDropdownOptions ctx page index))
               (\<lambda>options.
             case options of
               Some (opt # opts) \<Rightarrow>
                 (let formattedOptions = map format_option (opt # opts);
                      msg = join newline formattedOptions @ newline @
                            ''Use the exact text string in select_dropdown_option'' in
                  bindP (emitEvent NAVIGATOR ACT_OK
                           (''Got '' @ show_nat (length (opt # opts)) @ '' options from dropdown''))
                    (\<lambda>_.
                  ret (newActionResult\<lparr>extractedContent := Some msg, includeInMemory := True\<rparr>)))
             | _ \<Rightarrow>
                 (let msg = ''No options found in dropdown'' in
                  bindP (emitEvent NAVIGATOR ACT_OK msg) (\<lambda>_.
                  ret (newActionResult\<lparr>extractedContent := Some msg, includeInMemory := True\<rparr>)))))
            (\<lambda>error.
               let errorMsg = ''Failed to get dropdown options: '' @ error_text error in
               bindP (emitEvent NAVIGATOR ACT_FAIL errorMsg) (\<lambda>_.
               ret (newActionResult\<lparr>error := Some errorMsg, includeInMemory := True\<rparr>)))))))"

text \<open>\<open>!tagName || tagName.toLowerCase() !== 'select'\<close>\<close>

fun not_a_select :: "string option \<Rightarrow> bool" where
  "not_a_select None = True"
| "not_a_select (Some t) = (t = [] \<or> toLowerCase t \<noteq> ''select'')"

text \<open>\<open>tagName || 'unknown'\<close>\<close>

fun tagName_or_unknown :: "string option \<Rightarrow> string" where
  "tagName_or_unknown None = ''unknown''"
| "tagName_or_unknown (Some t) = (if t \<noteq> [] then t else ''unknown'')"

definition selectDropdownOption_handler ::
  "'w AgentContext \<Rightarrow> int \<Rightarrow> string \<Rightarrow> ('w state, ActionResult) io" where
  "selectDropdownOption_handler ctx index text =
     (let todo = ''Select option '' @ dquote @ text @ dquote @ '' from dropdown with index '' @
                 show_int index in
      bindP (emitEvent NAVIGATOR ACT_START todo) (\<lambda>_.
      bindP (perform (GetCurrentPage True) (getCurrentPage ctx True)) (\<lambda>page.
      bindP (perform (GetState page) (getState ctx page)) (\<lambda>state.
      case selectorMap_get state index of
        None \<Rightarrow>
          (let errorMsg = element_missing index in
           bindP (emitEvent NAVIGATOR ACT_FAIL errorMsg) (\<lambda>_.
           ret (newActionResult\<lparr>error := Some errorMsg, includeInMemory := True\<rparr>)))
      | Some elementNode \<Rightarrow>
          if not_a_select (tagName elementNode)
          then (let errorMsg = ''Cannot select option: Element with index '' @ show_int index @
                               '' is a '' @ tagName_or_unknown (tagName elementNode) @
                               '', not a SELECT'' in
                bindP (emitEvent NAVIGATOR ACT_FAIL errorMsg) (\<lambda>_.
                ret (newActionResult\<lparr>error := Some errorMsg, includeInMemory := True\<rparr>)))
          else try_catch
                 (bindP (perform (SelectDropdownOption page index text)
                           (selectDropdownOption ctx page index text)) (\<lambda>result.
                  let msg = ''Selected option '' @ dquote @ text @ dquote @
                            '' from dropdown with index '' @ show_int index in
                  bindP (emitEvent NAVIGATOR ACT_OK msg) (\<lambda>_.
                  ret (newActionResult\<lparr>extractedContent := Some result, includeInMemory := True\<rparr>))))
                 (\<lambda>error.
                    let errorMsg = ''Failed to select option: '' @ error_text error in
                    bindP (emitEvent NAVIGATOR ACT_FAIL errorMsg) (\<lambda>_.
                    ret (newActionResult\<lparr>error := Some errorMsg, includeInMemory := True\<rparr>)))))))"

text \<open>The field that one round of the loop of \<open>buildDynamicActionSchema\<close> adds.\<close>

definition action_field :: "'s Action \<Rightarrow> string \<times> zod" where
  "action_field a =
     (action_name a,
      describe (nullable (schema (actionSchema a))) (description (actionSchema a)))"

section \<open>Example actions and contexts\<close>

text \<open>
  Concrete actions over a state that counts the handler's runs, and a validator that
  accepts objects only.
\<close>

definition example_action :: "nat Action" where
  "example_action =
     \<lparr>handler = (\<lambda>input n. (Inr newActionResult, Suc n)),
      actionSchema = \<lparr>name = ''click_element'', description = ''Click element by index'',
                      schema = z_object [(''index'', Zod (Some ''index of the element'') ZodNumber)]\<rparr>,
      hasIndex = True\<rparr>"

definition example_empty_action :: "nat Action" where
  "example_empty_action =
     \<lparr>handler = (\<lambda>input n. (Inr (newActionResult\<lparr>isDone := input = JObject []\<rparr>), Suc n)),
      actionSchema = \<lparr>name = ''go_back'', description = ''Go back'', schema = z_object []\<rparr>,
      hasIndex = False\<rparr>"

definition example_safeParse :: safeParse where
  "example_safeParse s input =
     (case input of JObject fs \<Rightarrow> Inr input | _ \<Rightarrow> Inl ''Expected object, received something else'')"

definition required_args_action :: "nat Action" where
  "required_args_action =
     \<lparr>handler = (\<lambda>input n. (Inr newActionResult, n)),
      actionSchema = \<lparr>name = ''go_to_url'', description = ''Navigate to URL'',
                      schema = z_object [(''url'', Zod None ZodString)]\<rparr>,
      hasIndex = False\<rparr>"

definition optional_args_action :: "nat Action" where
  "optional_args_action =
     \<lparr>handler = (\<lambda>input n. (Inr newActionResult, n)),
      actionSchema = \<lparr>name = ''scroll_down'', description = ''Scroll down'',
                      schema = z_object [(''amount'', optional (Zod None ZodNumber))]\<rparr>,
      hasIndex = False\<rparr>"

text \<open>
  A browser in which every call succeeds and advances the world, a counter, by one.
  The current page is tab 7; its only indexed element, number 5, is a file input.
\<close>

definition file_input :: DOMElementNode where
  "file_input = \<lparr>tagName = Some ''input'', xpath = Some ''//input[1]''\<rparr>"

definition upload_context :: "nat AgentContext" where
  "upload_context =
     \<lparr>useVision = False,
      navigateTo = (\<lambda>url background w. (Inr (), Suc w)),
      getCurrentPage = (\<lambda>background w. (Inr \<lparr>tabId = 7\<rparr>, Suc w)),
      getAllTabIds = (\<lambda>w. (Inr [7], Suc w)),
      switchTab = (\<lambda>tab background w. (Inr (), Suc w)),
      openTab = (\<lambda>url background w. (Inr \<lparr>tabId = 8\<rparr>, Suc w)),
      closeTab = (\<lambda>tab w. (Inr (), Suc w)),
      goBack = (\<lambda>page w. (Inr (), Suc w)),
      getState = (\<lambda>page w. (Inr (Some (\<lambda>i. if i = 5 then Some file_input else None)), Suc w)),
      isFileUploader = (\<lambda>page element w. (Inr True, Suc w)),
      clickElementNode = (\<lambda>page vision element w. (Inr (), Suc w)),
      getAllTextTillNextClickableElement = (\<lambda>element depth w. (Inr ''Upload'', Suc w)),
      inputTextElementNode = (\<lambda>page vision element text w. (Inr (), Suc w)),
      getReadabilityContent = (\<lambda>page w. (Inr ''Example Domain'', Suc w)),
      invoke = (\<lambda>prompt w. (Inr ''{}'', Suc w)),
      scrollDown = (\<lambda>page amount w. (Inr (), Suc w)),
      scrollUp = (\<lambda>page amount w. (Inr (), Suc w)),
      sendKeys = (\<lambda>page keys w. (Inr (), Suc w)),
      scrollToText = (\<lambda>page text w. (Inr True, Suc w)),
      getDropdownOptions = (\<lambda>page index w. (Inr (Some [(0, ''a'')]), Suc w)),
      selectDropdownOption = (\<lambda>page index text w. (Inr ''selected'', Suc w))\<rparr>"

text \<open>The same browser when element 5 is a button that has gone stale: the click throws.\<close>

definition stale_context :: "nat AgentContext" where
  "stale_context =
     upload_context
       \<lparr>isFileUploader := (\<lambda>page element w. (Inr False, Suc w)),
        clickElementNode := (\<lambda>page vision element w. (Inl (Error ''Node is detached''), Suc w))\<rparr>"

text \<open>The same browser with no page to work on, and with an extraction model that fails.\<close>

definition no_page_context :: "nat AgentContext" where
  "no_page_context =
     upload_context\<lparr>getCurrentPage := (\<lambda>background w. (Inl (Error ''No active tab''), Suc w))\<rparr>"

definition no_model_context :: "nat AgentContext" where
  "no_model_context =
     upload_context\<lparr>invoke := (\<lambda>prompt w. (Inl (Error ''Model unavailable''), Suc w))\<rparr>"

text \<open>The same browser when the tab is gone before it is closed: \<open>closeTab\<close> throws.\<close>

definition stale_tab_context :: "nat AgentContext" where
  "stale_tab_context =
     upload_context\<lparr>closeTab := (\<lambda>tab w. (Inl (Error ''No tab with id: 7''), Suc w))\<rparr>"

definition initial_state :: "nat state" where
  "initial_state = \<lparr>events = [], calls = [], world = 0\<rparr>"

text \<open>The phases of an event stream, and the click among the outbound calls.\<close>

definition phases :: "Event list \<Rightarrow> ExecutionState list" where
  "phases evs = map (\<lambda>ev. fst (snd ev)) evs"

fun is_click :: "outbound \<Rightarrow> bool" where
  "is_click (ClickElementNode page vision element) = True"
| "is_click c = False"

text \<open>
  The events a handler run has added to the stream, and the lifecycle of one
  invocation: one start, then one terminal event.
\<close>

definition emitted :: "'w state \<Rightarrow> 'w state \<Rightarrow> Event list" where
  "emitted s s' = drop (length (events s)) (events s')"

definition one_start_one_terminal :: "Event list \<Rightarrow> bool" where
  "one_start_one_terminal evs =
     (phases evs = [ACT_START, ACT_OK] \<or> phases evs = [ACT_START, ACT_FAIL])"

section \<open>Action.call and getIndexArg\<close>

text \<open>
  C5. When the parameter schema of an action is not the empty object schema and the
  raw input fails to parse, \<open>call\<close> throws \<open>InvalidInputError\<close> with the
  validator's message and leaves the state as it was; the outcome is the same whatever
  the bound handler is, so the handler did not run.
\<close>

theorem call_invalid_input:
  assumes "\<not> isEmptySchema (schema (actionSchema a))"
    and "safeParse (schema (actionSchema a)) input = Inl msg"
  shows "call safeParse a input s = (Inl (InvalidInputError msg), s) \<and>
         call safeParse (a\<lparr>handler := h\<rparr>) input s = (Inl (InvalidInputError msg), s)"
  using assms by (simp add: call_def)

theorem call_invalid_input_witness:
  "call example_safeParse example_action (JString ''5'') 0 =
     (Inl (InvalidInputError ''Expected object, received something else''), 0) \<and>
   handler example_action (JString ''5'') 0 = (Inr newActionResult, 1)"
proof -
  have a: "\<not> isEmptySchema (schema (actionSchema example_action))"
    by (simp add: isEmptySchema_def example_action_def z_object_def)
  have b: "example_safeParse (schema (actionSchema example_action)) (JString ''5'') =
             Inl ''Expected object, received something else''"
    by (simp add: example_safeParse_def)
  have c: "handler example_action (JString ''5'') 0 = (Inr newActionResult, 1)"
    by (simp add: example_action_def)
  from call_invalid_input [where a = example_action and safeParse = example_safeParse
      and input = "JString ''5''" and s = 0, OF a b] c
  show ?thesis by simp
qed

text \<open>
  C6. When the parameter schema of an action is an object schema with no fields,
  \<open>call\<close> on any raw input runs the handler on the empty object, and so gives what
  \<open>call\<close> on the empty object gives.
\<close>

theorem call_empty_schema:
  assumes "isEmptySchema (schema (actionSchema a))"
  shows "call safeParse a input s = handler a (JObject []) s \<and>
         call safeParse a input s = call safeParse a (JObject []) s"
  using assms by (simp add: call_def)

theorem call_empty_schema_witness:
  "call example_safeParse example_empty_action (JString ''anything'') 0 =
     (Inr (newActionResult\<lparr>isDone := True\<rparr>), 1) \<and>
   call example_safeParse example_empty_action (JString ''anything'') 0 =
     call example_safeParse example_empty_action (JObject []) 0"
proof -
  have a: "isEmptySchema (schema (actionSchema example_empty_action))"
    by (simp add: isEmptySchema_def example_empty_action_def z_object_def)
  have c: "handler example_empty_action (JObject []) 0 =
             (Inr (newActionResult\<lparr>isDone := True\<rparr>), 1)"
    by (simp add: example_empty_action_def)
  from call_empty_schema [where a = example_empty_action and safeParse = example_safeParse
      and input = "JString ''anything''" and s = 0, OF a] c
  show ?thesis by auto
qed

text \<open>
  C8, as the code has it. For an action with \<open>hasIndex\<close>, \<open>getIndexArg\<close> returns
  the value of the \<open>index\<close> field of an input that is an object with such a field,
  whatever the type of that value, and \<open>null\<close> for every other input. It is a
  function of the action and the input alone.
\<close>

theorem getIndexArg_returns_index_field:
  assumes "hasIndex a"
  shows "getIndexArg a input =
           (case input of
              JObject fs \<Rightarrow> (case map_of fs ''index'' of Some v \<Rightarrow> v | None \<Rightarrow> JNull)
            | _ \<Rightarrow> JNull)"
  using assms by (cases input) (auto simp: getIndexArg_def split: option.splits)

theorem getIndexArg_returns_index_field_witness:
  "getIndexArg example_action (JObject [(''index'', JNumber 5)]) = JNumber 5 \<and>
   getIndexArg example_action (JObject [(''text'', JString ''x'')]) = JNull \<and>
   getIndexArg example_action (JNumber 5) = JNull"
proof -
  have a: "hasIndex example_action" by (simp add: example_action_def)
  show ?thesis
    using getIndexArg_returns_index_field [OF a, of "JObject [(''index'', JNumber 5)]"]
      getIndexArg_returns_index_field [OF a, of "JObject [(''text'', JString ''x'')]"]
      getIndexArg_returns_index_field [OF a, of "JNumber 5"]
    by simp
qed

text \<open>
  C8 as stated fails: an \<open>index\<close> field that is not a number is returned as it is,
  where the claim gives \<open>null\<close>.
\<close>

theorem getIndexArg_not_numeric_counterexample:
  "hasIndex example_action \<and>
   getIndexArg example_action (JObject [(''index'', JString ''abc'')]) = JString ''abc'' \<and>
   getIndexArg example_action (JObject [(''index'', JString ''abc'')]) \<noteq> JNull"
  by (simp add: getIndexArg_def example_action_def)

section \<open>buildDynamicActionSchema\<close>

lemma assign_fresh: "k \<notin> fst ` set sh \<Longrightarrow> assign k v sh = sh @ [(k, v)]"
  by (induction sh) auto

lemma foldl_extend_schema:
  "distinct (map action_name actions) \<Longrightarrow>
   set (map action_name actions) \<inter> fst ` set sh = {} \<Longrightarrow>
   foldl (\<lambda>sch action. extend_schema sch (action_name action)
               (describe (nullable (schema (actionSchema action)))
                  (description (actionSchema action)))) (Zod d (ZodObject sh)) actions
   = Zod d (ZodObject (sh @ map action_field actions))"
proof (induction actions arbitrary: sh)
  case Nil
  then show ?case by simp
next
  case (Cons a as)
  have fresh: "action_name a \<notin> fst ` set sh" using Cons.prems(2) by auto
  have "set (map action_name as) \<inter> fst ` set (sh @ [action_field a]) = {}"
    using Cons.prems by (auto simp: action_field_def)
  with Cons.IH[of "sh @ [action_field a]"] Cons.prems(1) fresh show ?case
    by (simp add: assign_fresh action_field_def)
qed

lemma buildDynamicActionSchema_shape:
  "distinct (map action_name actions) \<Longrightarrow>
   buildDynamicActionSchema actions =
     Zod None (ZodObject (map (\<lambda>a. (action_name a, optional (snd (action_field a)))) actions))"
  using foldl_extend_schema[of actions "[]" None]
  by (simp add: buildDynamicActionSchema_def z_object_def action_field_def comp_def)

text \<open>
  C7. For a list of actions with distinct names, the combined schema is an object
  schema with as many top-level fields as there are actions, named by the actions'
  names, each of them optional and nullable, whatever the actions' own schemas are.
\<close>

theorem buildDynamicActionSchema_fields:
  assumes "distinct (map action_name actions)"
  shows "instanceof_ZodObject (buildDynamicActionSchema actions) \<and>
         length (shape (buildDynamicActionSchema actions)) = length actions \<and>
         distinct (map fst (shape (buildDynamicActionSchema actions))) \<and>
         set (map fst (shape (buildDynamicActionSchema actions))) = set (map action_name actions) \<and>
         list_all (\<lambda>(k, f). isOptional f \<and> isNullable f) (shape (buildDynamicActionSchema actions))"
  using assms
  by (simp add: buildDynamicActionSchema_shape action_field_def optional_def describe_def
      nullable_def list_all_iff comp_def)

theorem buildDynamicActionSchema_fields_witness:
  "set (map fst (shape (buildDynamicActionSchema [required_args_action, optional_args_action]))) =
     {''go_to_url'', ''scroll_down''} \<and>
   length (shape (buildDynamicActionSchema [required_args_action, optional_args_action])) = 2 \<and>
   list_all (\<lambda>(k, f). isOptional f \<and> isNullable f)
     (shape (buildDynamicActionSchema [required_args_action, optional_args_action]))"
proof -
  have d: "distinct (map action_name [required_args_action, optional_args_action])"
    by (simp add: action_name_def required_args_action_def optional_args_action_def)
  from buildDynamicActionSchema_fields [OF d] show ?thesis
    by (simp add: action_name_def required_args_action_def optional_args_action_def)
qed

section \<open>The handlers\<close>

lemmas io_defs = Let_def bindP_def ret_def throw_def try_catch_def emitEvent_def perform_def

lemma show_int_5: "show_int 5 = ''5''"
  by code_simp

lemma show_int_6: "show_int 6 = ''6''"
  by code_simp

lemma show_int_7: "show_int 7 = ''7''"
  by code_simp

lemma upload_context_page:
  "getCurrentPage upload_context True w = (Inr \<lparr>tabId = 7\<rparr>, Suc w)"
  by (simp add: upload_context_def)

lemma upload_context_state:
  "getState upload_context page w =
     (Inr (Some (\<lambda>i. if i = 5 then Some file_input else None)), Suc w)"
  by (simp add: upload_context_def)

text \<open>
  C9. When the element at the index exists and the page reports it as a file
  uploader, \<open>click_element\<close> makes three calls, none of them a click, and returns a
  result whose content is the message about the file upload dialog, with no error and
  \<open>includeInMemory\<close> set.
\<close>

theorem clickElement_file_uploader:
  assumes "getCurrentPage ctx True (world s) = (Inr page, w1)"
    and "getState ctx page w1 = (Inr st, w2)"
    and "selectorMap_get st index = Some elementNode"
    and "isFileUploader ctx page elementNode w2 = (Inr True, w3)"
  shows "clickElement_handler ctx index desc s =
           (Inr \<lparr>isDone = False, extractedContent = Some (file_upload_msg index), error = None,
                 includeInMemory = True\<rparr>,
            s\<lparr>events := events s @
                 [(NAVIGATOR, ACT_START, or_else desc (''Click element with index '' @ show_int index))],
              calls := calls s @ [GetCurrentPage True, GetState page, IsFileUploader page elementNode],
              world := w3\<rparr>) \<and>
         filter is_click [GetCurrentPage True, GetState page, IsFileUploader page elementNode] = [] \<and>
         sublist ''file upload dialog'' (file_upload_msg index)"
proof -
  have "sublist ''file upload dialog'' (file_upload_msg index)"
    unfolding file_upload_msg_def sublist_def
    by (rule exI[of _ "''Index '' @ show_int index @ '' - has an element which opens ''"],
        rule exI[of _ "''. To upload files please use a specific function to upload files''"]) simp
  then show ?thesis using assms
    by (simp add: clickElement_handler_def io_defs newActionResult_def)
qed

theorem clickElement_file_uploader_witness:
  "clickElement_handler upload_context 5 Absent initial_state =
     (Inr \<lparr>isDone = False, extractedContent = Some (file_upload_msg 5), error = None,
           includeInMemory = True\<rparr>,
      \<lparr>events = [(NAVIGATOR, ACT_START, ''Click element with index 5'')],
       calls = [GetCurrentPage True, GetState \<lparr>tabId = 7\<rparr>, IsFileUploader \<lparr>tabId = 7\<rparr> file_input],
       world = 3\<rparr>)"
proof -
  have a: "getCurrentPage upload_context True (world initial_state) = (Inr \<lparr>tabId = 7\<rparr>, 1)"
    by (simp add: upload_context_page initial_state_def)
  have b: "getState upload_context \<lparr>tabId = 7\<rparr> 1 =
             (Inr (Some (\<lambda>i. if i = 5 then Some file_input else None)), 2)"
    by (simp add: upload_context_state)
  have c: "selectorMap_get (Some (\<lambda>i. if i = 5 then Some file_input else None)) 5 = Some file_input"
    by simp
  have d: "isFileUploader upload_context \<lparr>tabId = 7\<rparr> file_input 2 = (Inr True, 3)"
    by (simp add: upload_context_def)
  from clickElement_file_uploader [OF a b c d, of Absent] show ?thesis
    by (simp add: initial_state_def show_int_5)
qed

text \<open>
  C10. When the \<open>tab_id\<close> of the input is absent, \<open>null\<close> or 0, and the current
  page is found, \<open>close_tab\<close> looks up the current page and applies \<open>closeTab\<close> to
  the tab id of that page, and to nothing else: the world it leaves is the one that
  this \<open>closeTab\<close> leaves. If \<open>closeTab\<close> returns, the handler returns the result
  that names the closed tab, after a start and a success event; if it throws, the
  handler throws the same, after the start event. The 0 never reaches \<open>closeTab\<close> as
  the given id.
\<close>

theorem closeTab_falsy_closes_current:
  assumes "tab_id = Absent \<or> tab_id = Null \<or> tab_id = Present 0"
    and "getCurrentPage ctx True (world s) = (Inr page, w1)"
    and "closeTab ctx (tabId page) w1 = (r, w2)"
  shows "closeTab_handler ctx tab_id s =
           (case r of
              Inl failure \<Rightarrow>
                (Inl failure,
                 s\<lparr>events := events s @
                      [(NAVIGATOR, ACT_START, ''Closing current tab '' @ show_int (tabId page))],
                   calls := calls s @ [GetCurrentPage True, CloseTab (tabId page)],
                   world := w2\<rparr>)
            | Inr closed \<Rightarrow>
                (Inr \<lparr>isDone = False,
                      extractedContent = Some (''Closed current tab '' @ show_int (tabId page)),
                      error = None, includeInMemory = True\<rparr>,
                 s\<lparr>events := events s @
                      [(NAVIGATOR, ACT_START, ''Closing current tab '' @ show_int (tabId page)),
                       (NAVIGATOR, ACT_OK, ''Closed current tab '' @ show_int (tabId page))],
                   calls := calls s @ [GetCurrentPage True, CloseTab (tabId page)],
                   world := w2\<rparr>)) \<and>
         calls (snd (closeTab_handler ctx tab_id s)) =
           calls s @ [GetCurrentPage True, CloseTab (tabId page)]"
  using assms
  by (cases r) (auto simp: closeTab_handler_def io_defs newActionResult_def)

theorem closeTab_falsy_closes_current_witness:
  "closeTab_handler upload_context (Present 0) initial_state =
     (Inr \<lparr>isDone = False, extractedContent = Some ''Closed current tab 7'', error = None,
           includeInMemory = True\<rparr>,
      \<lparr>events = [(NAVIGATOR, ACT_START, ''Closing current tab 7''),
                 (NAVIGATOR, ACT_OK, ''Closed current tab 7'')],
       calls = [GetCurrentPage True, CloseTab 7],
       world = 2\<rparr>) \<and>
   closeTab_handler upload_context Null initial_state =
     closeTab_handler upload_context (Present 0) initial_state \<and>
   closeTab_handler upload_context Absent initial_state =
     closeTab_handler upload_context (Present 0) initial_state \<and>
   closeTab_handler stale_tab_context (Present 0) initial_state =
     (Inl (Error ''No tab with id: 7''),
      \<lparr>events = [(NAVIGATOR, ACT_START, ''Closing current tab 7'')],
       calls = [GetCurrentPage True, CloseTab 7],
       world = 2\<rparr>)"
proof -
  have a: "getCurrentPage upload_context True (world initial_state) = (Inr \<lparr>tabId = 7\<rparr>, 1)"
    by (simp add: upload_context_def initial_state_def)
  have b: "closeTab upload_context (tabId \<lparr>tabId = 7\<rparr>) 1 = (Inr (), 2)"
    by (simp add: upload_context_def)
  have c: "getCurrentPage stale_tab_context True (world initial_state) = (Inr \<lparr>tabId = 7\<rparr>, 1)"
    by (simp add: stale_tab_context_def upload_context_def initial_state_def)
  have d: "closeTab stale_tab_context (tabId \<lparr>tabId = 7\<rparr>) 1 = (Inl (Error ''No tab with id: 7''), 2)"
    by (simp add: stale_tab_context_def upload_context_def)
  show ?thesis
    using closeTab_falsy_closes_current [where tab_id = "Present 0", OF _ a b]
      closeTab_falsy_closes_current [where tab_id = Null, OF _ a b]
      closeTab_falsy_closes_current [where tab_id = Absent, OF _ a b]
      closeTab_falsy_closes_current [where tab_id = "Present 0", OF _ c d]
    by (simp add: initial_state_def show_int_7)
qed

text \<open>
  C3. When the current page and its state are obtained and the index is not in the
  element map, \<open>get_dropdown_options\<close> and \<open>select_dropdown_option\<close> return a
  result whose error is the diagnostic that names the index, after a start and a
  failure event, and do not throw; \<open>click_element\<close> and \<open>input_text\<close> throw an
  error with that same diagnostic.
\<close>

theorem missing_index_outcomes:
  assumes "getCurrentPage ctx True (world s) = (Inr page, w1)"
    and "getState ctx page w1 = (Inr st, w2)"
    and "selectorMap_get st index = None"
  shows "getDropdownOptions_handler ctx index s =
           (Inr \<lparr>isDone = False, extractedContent = None, error = Some (element_missing index),
                 includeInMemory = True\<rparr>,
            s\<lparr>events := events s @
                 [(NAVIGATOR, ACT_START, ''Getting options from dropdown with index '' @ show_int index),
                  (NAVIGATOR, ACT_FAIL, element_missing index)],
              calls := calls s @ [GetCurrentPage True, GetState page],
              world := w2\<rparr>) \<and>
         selectDropdownOption_handler ctx index text s =
           (Inr \<lparr>isDone = False, extractedContent = None, error = Some (element_missing index),
                 includeInMemory = True\<rparr>,
            s\<lparr>events := events s @
                 [(NAVIGATOR, ACT_START,
                   ''Select option '' @ dquote @ text @ dquote @ '' from dropdown with index '' @
                   show_int index),
                  (NAVIGATOR, ACT_FAIL, element_missing index)],
              calls := calls s @ [GetCurrentPage True, GetState page],
              world := w2\<rparr>) \<and>
         fst (clickElement_handler ctx index desc s) = Inl (Error (element_missing index)) \<and>
         fst (inputText_handler ctx index text desc s) = Inl (Error (element_missing index)) \<and>
         sublist (show_int index) (element_missing index)"
proof -
  have "sublist (show_int index) (element_missing index)"
    unfolding element_missing_def sublist_def
    by (rule exI[of _ "''Element with index ''"],
        rule exI[of _ "'' does not exist - retry or use alternative actions''"]) simp
  then show ?thesis using assms
    by (simp add: getDropdownOptions_handler_def selectDropdownOption_handler_def
        clickElement_handler_def inputText_handler_def io_defs newActionResult_def)
qed

theorem missing_index_outcomes_witness:
  "fst (getDropdownOptions_handler upload_context 6 initial_state) =
     Inr \<lparr>isDone = False, extractedContent = None, error = Some (element_missing 6),
          includeInMemory = True\<rparr> \<and>
   fst (selectDropdownOption_handler upload_context 6 ''Red'' initial_state) =
     Inr \<lparr>isDone = False, extractedContent = None, error = Some (element_missing 6),
          includeInMemory = True\<rparr> \<and>
   fst (clickElement_handler upload_context 6 Absent initial_state) = Inl (Error (element_missing 6)) \<and>
   fst (inputText_handler upload_context 6 ''Red'' Absent initial_state) =
     Inl (Error (element_missing 6)) \<and>
   element_missing 6 = ''Element with index 6 does not exist - retry or use alternative actions''"
proof -
  have a: "getCurrentPage upload_context True (world initial_state) = (Inr \<lparr>tabId = 7\<rparr>, 1)"
    by (simp add: upload_context_page initial_state_def)
  have b: "getState upload_context \<lparr>tabId = 7\<rparr> 1 =
             (Inr (Some (\<lambda>i. if i = 5 then Some file_input else None)), 2)"
    by (simp add: upload_context_state)
  have c: "selectorMap_get (Some (\<lambda>i. if i = 5 then Some file_input else None)) 6 = None"
    by simp
  have e: "element_missing 6 = ''Element with index 6 does not exist - retry or use alternative actions''"
    by (simp add: element_missing_def show_int_6)
  from missing_index_outcomes [OF a b c, of "''Red''" Absent] e show ?thesis
    by simp
qed

text \<open>
  C2, as the code has it. When the current page and its state are obtained:
  if the index is not in the selector map, \<open>click_element\<close> throws an error that
  names the index, after its start event; if the element is there, is no file
  uploader and the click throws, \<open>click_element\<close> emits a failure event and returns
  a result whose error is the message of what was thrown.
\<close>

theorem clickElement_failures:
  assumes "getCurrentPage ctx True (world s) = (Inr page, w1)"
    and "getState ctx page w1 = (Inr st, w2)"
  shows "(selectorMap_get st index = None \<longrightarrow>
            clickElement_handler ctx index desc s =
              (Inl (Error (element_missing index)),
               s\<lparr>events := events s @
                    [(NAVIGATOR, ACT_START,
                      or_else desc (''Click element with index '' @ show_int index))],
                 calls := calls s @ [GetCurrentPage True, GetState page],
                 world := w2\<rparr>)) \<and>
         (selectorMap_get st index = Some elementNode \<and>
          isFileUploader ctx page elementNode w2 = (Inr False, w3) \<and>
          getAllTabIds ctx w3 = (Inr initialTabIds, w4) \<and>
          clickElementNode ctx page (useVision ctx) elementNode w4 = (Inl e, w5) \<longrightarrow>
            clickElement_handler ctx index desc s =
              (Inr \<lparr>isDone = False, extractedContent = None, error = Some (error_text e),
                    includeInMemory = False\<rparr>,
               s\<lparr>events := events s @
                    [(NAVIGATOR, ACT_START,
                      or_else desc (''Click element with index '' @ show_int index)),
                     (NAVIGATOR, ACT_FAIL,
                      ''Element no longer available with index '' @ show_int index @
                      '' - most likely the page changed'')],
                 calls := calls s @
                    [GetCurrentPage True, GetState page, IsFileUploader page elementNode,
                     GetAllTabIds, ClickElementNode page (useVision ctx) elementNode],
                 world := w5\<rparr>))"
  using assms
  by (simp add: clickElement_handler_def click_and_follow_def io_defs newActionResult_def)

theorem clickElement_failures_witness:
  "clickElement_handler stale_context 6 Absent initial_state =
     (Inl (Error (element_missing 6)),
      \<lparr>events = [(NAVIGATOR, ACT_START, ''Click element with index 6'')],
       calls = [GetCurrentPage True, GetState \<lparr>tabId = 7\<rparr>],
       world = 2\<rparr>) \<and>
   clickElement_handler stale_context 5 Absent initial_state =
     (Inr \<lparr>isDone = False, extractedContent = None, error = Some ''Node is detached'',
           includeInMemory = False\<rparr>,
      \<lparr>events = [(NAVIGATOR, ACT_START, ''Click element with index 5''),
                 (NAVIGATOR, ACT_FAIL,
                  ''Element no longer available with index 5 - most likely the page changed'')],
       calls = [GetCurrentPage True, GetState \<lparr>tabId = 7\<rparr>, IsFileUploader \<lparr>tabId = 7\<rparr> file_input,
                GetAllTabIds, ClickElementNode \<lparr>tabId = 7\<rparr> False file_input],
       world = 5\<rparr>)"
proof -
  have a: "getCurrentPage stale_context True (world initial_state) = (Inr \<lparr>tabId = 7\<rparr>, 1)"
    by (simp add: stale_context_def upload_context_def initial_state_def)
  have b: "getState stale_context \<lparr>tabId = 7\<rparr> 1 =
             (Inr (Some (\<lambda>i. if i = 5 then Some file_input else None)), 2)"
    by (simp add: stale_context_def upload_context_def)
  have c: "selectorMap_get (Some (\<lambda>i. if i = 5 then Some file_input else None)) 6 = None"
    by simp
  have d: "selectorMap_get (Some (\<lambda>i. if i = 5 then Some file_input else None)) 5 = Some file_input \<and>
           isFileUploader stale_context \<lparr>tabId = 7\<rparr> file_input 2 = (Inr False, 3) \<and>
           getAllTabIds stale_context 3 = (Inr [7], 4) \<and>
           clickElementNode stale_context \<lparr>tabId = 7\<rparr> (useVision stale_context) file_input 4 =
             (Inl (Error ''Node is detached''), 5)"
    by (simp add: stale_context_def upload_context_def)
  have v: "useVision stale_context = False"
    by (simp add: stale_context_def upload_context_def)
  from clickElement_failures [OF a b, where index = 6 and desc = Absent] c
    clickElement_failures [OF a b, where index = 5 and desc = Absent and elementNode = file_input
      and ?w3.0 = 3 and initialTabIds = "[7]" and ?w4.0 = 4 and e = "Error ''Node is detached''"
      and ?w5.0 = 5] d v
  show ?thesis
    by (simp add: initial_state_def show_int_5 show_int_6)
qed

text \<open>
  C2 as stated fails: on an index that is not in the selector map the handler throws.
\<close>

theorem clickElement_missing_index_counterexample:
  "fst (clickElement_handler upload_context 6 Absent initial_state) =
     Inl (Error ''Element with index 6 does not exist - retry or use alternative actions'')"
  by (simp add: clickElement_handler_def io_defs upload_context_def initial_state_def
      element_missing_def show_int_6)

text \<open>Whatever throws inside the \<open>try\<close> block of \<open>click_element\<close> is reported the same way.\<close>

lemma clickElement_try_failure:
  assumes "getCurrentPage ctx True (world s) = (Inr page, w1)"
    and "getState ctx page w1 = (Inr st, w2)"
    and "selectorMap_get st index = Some elementNode"
    and "isFileUploader ctx page elementNode w2 = (Inr False, w3)"
    and "click_and_follow ctx page elementNode index
           (s\<lparr>events := events s @
                [(NAVIGATOR, ACT_START,
                  or_else desc (''Click element with index '' @ show_int index))],
              calls := calls s @ [GetCurrentPage True, GetState page, IsFileUploader page elementNode],
              world := w3\<rparr>) = (Inl e, s')"
  shows "clickElement_handler ctx index desc s =
           (Inr \<lparr>isDone = False, extractedContent = None, error = Some (error_text e),
                 includeInMemory = False\<rparr>,
            s'\<lparr>events := events s' @
                 [(NAVIGATOR, ACT_FAIL,
                   ''Element no longer available with index '' @ show_int index @
                   '' - most likely the page changed'')]\<rparr>)"
  using assms
  by (simp add: clickElement_handler_def io_defs newActionResult_def)

text \<open>
  C4, as the code has it. Once the current page and its readability content are
  obtained, \<open>extract_content\<close> does not throw: when the extraction model fails it
  returns the message that tells the caller to extract from the current state of the
  page, with no error and \<open>includeInMemory\<close> set; when the model answers it returns
  the answer. What the lookup of the current page throws is not caught: it leaves the
  handler.
\<close>

theorem extractContent_recovers_from_model_failure:
  "(getCurrentPage ctx True (world s) = (Inr page, w1) \<and>
    getReadabilityContent ctx page w1 = (Inr content, w2) \<and>
    invoke ctx (extraction_prompt goal content) w2 = (r, w3) \<longrightarrow>
      extractContent_handler ctx goal s =
        (Inr \<lparr>isDone = False,
              extractedContent =
                Some (case r of
                        Inl failure \<Rightarrow> extraction_failed
                      | Inr output \<Rightarrow>
                          page_emoji @ ''  Extracted from page'' @ newline @ '': '' @ output @ newline),
              error = None, includeInMemory = True\<rparr>,
         s\<lparr>calls := calls s @
              [GetCurrentPage True, GetReadabilityContent page,
               Invoke (extraction_prompt goal content)],
           world := w3\<rparr>)) \<and>
   (getCurrentPage ctx True (world s) = (Inl e, w0) \<longrightarrow>
      extractContent_handler ctx goal s =
        (Inl e, s\<lparr>calls := calls s @ [GetCurrentPage True], world := w0\<rparr>))"
  by (cases r) (simp_all add: extractContent_handler_def io_defs newActionResult_def)

theorem extractContent_recovers_from_model_failure_witness:
  "extractContent_handler no_model_context ''prices'' initial_state =
     (Inr \<lparr>isDone = False, extractedContent = Some extraction_failed, error = None,
           includeInMemory = True\<rparr>,
      \<lparr>events = [],
       calls = [GetCurrentPage True, GetReadabilityContent \<lparr>tabId = 7\<rparr>,
                Invoke (extraction_prompt ''prices'' ''Example Domain'')],
       world = 3\<rparr>) \<and>
   extractContent_handler no_page_context ''prices'' initial_state =
     (Inl (Error ''No active tab''), \<lparr>events = [], calls = [GetCurrentPage True], world = 1\<rparr>)"
proof -
  have a: "getCurrentPage no_model_context True (world initial_state) = (Inr \<lparr>tabId = 7\<rparr>, 1) \<and>
           getReadabilityContent no_model_context \<lparr>tabId = 7\<rparr> 1 = (Inr ''Example Domain'', 2) \<and>
           invoke no_model_context (extraction_prompt ''prices'' ''Example Domain'') 2 =
             (Inl (Error ''Model unavailable''), 3)"
    by (simp add: no_model_context_def upload_context_def initial_state_def)
  have b: "getCurrentPage no_page_context True (world initial_state) =
             (Inl (Error ''No active tab''), 1)"
    by (simp add: no_page_context_def upload_context_def initial_state_def)
  from extractContent_recovers_from_model_failure
         [where ctx = no_model_context and s = initial_state and goal = "''prices''"
            and page = "\<lparr>tabId = 7\<rparr>" and ?w1.0 = 1 and content = "''Example Domain''"
            and ?w2.0 = 2 and r = "Inl (Error ''Model unavailable'')" and ?w3.0 = 3]
       extractContent_recovers_from_model_failure
         [where ctx = no_page_context and s = initial_state and goal = "''prices''"
            and e = "Error ''No active tab''" and ?w0.0 = 1]
       a b
  show ?thesis
    by (simp add: initial_state_def)
qed

text \<open>
  C4 as stated fails: the lookup of the current page is outside the \<open>try\<close> block, and
  what it throws leaves the handler.
\<close>

theorem extractContent_no_page_counterexample:
  "fst (extractContent_handler no_page_context ''prices'' initial_state) =
     Inl (Error ''No active tab'')"
  by (simp add: extractContent_handler_def io_defs no_page_context_def upload_context_def
      initial_state_def)

section \<open>The event lifecycle\<close>

text \<open>
  Fifteen handlers emit one start and one terminal event on every run that returns.
\<close>

lemmas lifecycle_defs = io_defs phases_def one_start_one_terminal_def emitted_def

lemma done_lifecycle:
  "done_handler ctx nm text s = (Inr res, s') \<Longrightarrow> one_start_one_terminal (emitted s s')"
  by (auto simp: done_handler_def lifecycle_defs split: prod.splits sum.splits)

lemma searchGoogle_lifecycle:
  "searchGoogle_handler ctx query s = (Inr res, s') \<Longrightarrow> one_start_one_terminal (emitted s s')"
  by (auto simp: searchGoogle_handler_def lifecycle_defs split: prod.splits sum.splits)

lemma goToUrl_lifecycle:
  "goToUrl_handler ctx url s = (Inr res, s') \<Longrightarrow> one_start_one_terminal (emitted s s')"
  by (auto simp: goToUrl_handler_def lifecycle_defs split: prod.splits sum.splits)

lemma goBack_lifecycle:
  "goBack_handler ctx s = (Inr res, s') \<Longrightarrow> one_start_one_terminal (emitted s s')"
  by (auto simp: goBack_handler_def lifecycle_defs split: prod.splits sum.splits)

lemma inputText_lifecycle:
  "inputText_handler ctx index text desc s = (Inr res, s') \<Longrightarrow>
   one_start_one_terminal (emitted s s')"
  by (auto simp: inputText_handler_def lifecycle_defs split: prod.splits sum.splits option.splits)

lemma switchTab_lifecycle:
  "switchTab_handler ctx tab_id s = (Inr res, s') \<Longrightarrow> one_start_one_terminal (emitted s s')"
  by (auto simp: switchTab_handler_def lifecycle_defs split: prod.splits sum.splits)

lemma openTab_lifecycle:
  "openTab_handler ctx url s = (Inr res, s') \<Longrightarrow> one_start_one_terminal (emitted s s')"
  by (auto simp: openTab_handler_def lifecycle_defs split: prod.splits sum.splits)

lemma closeTab_lifecycle:
  "closeTab_handler ctx tab_id s = (Inr res, s') \<Longrightarrow> one_start_one_terminal (emitted s s')"
  by (auto simp: closeTab_handler_def lifecycle_defs split: prod.splits sum.splits option.splits)

lemma cacheContent_lifecycle:
  "cacheContent_handler ctx nm content s = (Inr res, s') \<Longrightarrow>
   one_start_one_terminal (emitted s s')"
  by (auto simp: cacheContent_handler_def lifecycle_defs split: prod.splits sum.splits)

lemma scrollDown_lifecycle:
  "scrollDown_handler ctx amount desc s = (Inr res, s') \<Longrightarrow>
   one_start_one_terminal (emitted s s')"
  by (auto simp: scrollDown_handler_def lifecycle_defs split: prod.splits sum.splits)

lemma scrollUp_lifecycle:
  "scrollUp_handler ctx amount desc s = (Inr res, s') \<Longrightarrow>
   one_start_one_terminal (emitted s s')"
  by (auto simp: scrollUp_handler_def lifecycle_defs split: prod.splits sum.splits)

lemma sendKeys_lifecycle:
  "sendKeys_handler ctx keys desc s = (Inr res, s') \<Longrightarrow>
   one_start_one_terminal (emitted s s')"
  by (auto simp: sendKeys_handler_def lifecycle_defs split: prod.splits sum.splits)

lemma scrollToText_lifecycle:
  "scrollToText_handler ctx text desc s = (Inr res, s') \<Longrightarrow>
   one_start_one_terminal (emitted s s')"
  by (auto simp: scrollToText_handler_def lifecycle_defs split: prod.splits sum.splits)

lemma getDropdownOptions_lifecycle:
  "getDropdownOptions_handler ctx index s = (Inr res, s') \<Longrightarrow>
   one_start_one_terminal (emitted s s')"
  by (auto simp: getDropdownOptions_handler_def lifecycle_defs
      split: prod.splits sum.splits option.splits list.splits)

lemma selectDropdownOption_lifecycle:
  "selectDropdownOption_handler ctx index text s = (Inr res, s') \<Longrightarrow>
   one_start_one_terminal (emitted s s')"
  by (auto simp: selectDropdownOption_handler_def lifecycle_defs
      split: prod.splits sum.splits option.splits if_splits)


lemma click_and_follow_events:
  "click_and_follow ctx page elementNode index s = (Inr res, s') \<Longrightarrow>
   \<exists>msg. events s' = events s @ [(NAVIGATOR, ACT_OK, msg)]"
  by (auto simp: click_and_follow_def lifecycle_defs
      split: prod.splits sum.splits option.splits if_splits)

lemma click_and_follow_throws_events:
  "click_and_follow ctx page elementNode index s = (Inl e, s') \<Longrightarrow> events s' = events s"
  by (auto simp: click_and_follow_def lifecycle_defs
      split: prod.splits sum.splits option.splits if_splits)

lemma clickElement_lifecycle:
  "clickElement_handler ctx index desc s = (Inr res, s') \<Longrightarrow>
   one_start_one_terminal (emitted s s') \<or>
   phases (emitted s s') = [ACT_START] \<and> extractedContent res = Some (file_upload_msg index)"
  by (auto simp: clickElement_handler_def lifecycle_defs newActionResult_def
      split: prod.splits sum.splits option.splits if_splits
      dest!: click_and_follow_events click_and_follow_throws_events)

lemma extractContent_emits_nothing:
  "extractContent_handler ctx goal s = (r, s') \<Longrightarrow> events s' = events s"
  by (auto simp: extractContent_handler_def lifecycle_defs split: prod.splits sum.splits)

text \<open>
  C1 at the two places where the code departs from it. In the browser where element 5
  is a file uploader, \<open>click_element\<close> returns a result having emitted its start
  event and no terminal event, and \<open>extract_content\<close> returns a result having
  emitted no event at all.
\<close>

theorem lifecycle_events_missing:
  "fst (clickElement_handler upload_context 5 Absent initial_state) =
     Inr \<lparr>isDone = False, extractedContent = Some (file_upload_msg 5), error = None,
          includeInMemory = True\<rparr> \<and>
   phases (emitted initial_state (snd (clickElement_handler upload_context 5 Absent initial_state))) =
     [ACT_START] \<and>
   \<not> one_start_one_terminal
       (emitted initial_state (snd (clickElement_handler upload_context 5 Absent initial_state))) \<and>
   fst (extractContent_handler upload_context ''prices'' initial_state) =
     Inr \<lparr>isDone = False,
          extractedContent = Some (page_emoji @ ''  Extracted from page'' @ newline @ '': {}'' @ newline),
          error = None, includeInMemory = True\<rparr> \<and>
   emitted initial_state (snd (extractContent_handler upload_context ''prices'' initial_state)) = [] \<and>
   \<not> one_start_one_terminal
       (emitted initial_state (snd (extractContent_handler upload_context ''prices'' initial_state)))"
  by (simp add: clickElement_handler_def extractContent_handler_def io_defs upload_context_def
      initial_state_def newActionResult_def phases_def emitted_def one_start_one_terminal_def)

end
